theory Spec2Isabelle
  imports Main
begin

section \<open>The scripts' view of the world\<close>

text \<open>
  The three scripts of \<^verbatim>\<open>claude-batch-server\<close> read and write files, decode images and
  talk to an HTTP server.  A file is modelled by the three things the scripts ask of it: its
  size (\<^verbatim>\<open>os.path.getsize\<close>), what \<^verbatim>\<open>open(path, 'r', encoding='utf-8').read()\<close>
  gives (\<open>None\<close> when the read raises: a directory, undecodable bytes, no permission), and
  what \<^verbatim>\<open>PIL.Image.open\<close> makes of it.  A file system maps a path to the file stored
  there; \<^verbatim>\<open>os.path.exists\<close> is definedness of that map.  Strings are lists of 8-bit
  characters.  An exception raised by a library call is a value of type \<open>exn\<close>: the
  exceptions of the libraries used here (\<^verbatim>\<open>OSError\<close>, \<^verbatim>\<open>ValueError\<close>,
  \<^verbatim>\<open>requests.RequestException\<close>, \<^verbatim>\<open>TypeError\<close>, ...) all derive from
  \<^verbatim>\<open>Exception\<close>.
\<close>

type_synonym path = string

datatype exn = Error string

text \<open>
  What \<^verbatim>\<open>Image.open\<close> returns: \<^verbatim>\<open>img.size\<close>, \<^verbatim>\<open>img.mode\<close> and the result of
  \<^verbatim>\<open>img.getcolors(maxcolors=256)\<close>, which loads the pixel data and so raises on a
  truncated file, and returns \<^verbatim>\<open>None\<close> when there are more than 256 colours.
\<close>

record pil_image =
  isize :: "nat \<times> nat"
  imode :: string
  icolors :: "exn + (nat \<times> nat list) list option"

record file_node =
  fsize :: nat
  ftext :: "string option"
  fimage :: "exn + pil_image"

type_synonym filesystem = "path \<rightharpoonup> file_node"

definition exists :: "filesystem \<Rightarrow> path \<Rightarrow> bool" where
  "exists fs p = (fs p \<noteq> None)"

definition getsize :: "filesystem \<Rightarrow> path \<Rightarrow> exn + nat" where
  "getsize fs p = (case fs p of None \<Rightarrow> Inl (Error ''FileNotFoundError'') | Some f \<Rightarrow> Inr (fsize f))"

definition image_open :: "filesystem \<Rightarrow> path \<Rightarrow> exn + pil_image" where
  "image_open fs p = (case fs p of None \<Rightarrow> Inl (Error ''FileNotFoundError'') | Some f \<Rightarrow> fimage f)"

text \<open>Python's \<^verbatim>\<open>not s\<close> on a value that is \<^verbatim>\<open>None\<close> or a string.\<close>

definition not_str :: "string option \<Rightarrow> bool" where
  "not_str s = (case s of None \<Rightarrow> True | Some c \<Rightarrow> c = [])"

text \<open>Python's \<^verbatim>\<open>needle in haystack\<close> on strings.\<close>

fun is_prefix :: "string \<Rightarrow> string \<Rightarrow> bool" where
  "is_prefix [] s = True"
| "is_prefix (c # cs) [] = False"
| "is_prefix (c # cs) (d # ds) = (c = d \<and> is_prefix cs ds)"

fun str_in :: "string \<Rightarrow> string \<Rightarrow> bool" where
  "str_in needle [] = (needle = [])"
| "str_in needle (d # ds) = (is_prefix needle (d # ds) \<or> str_in needle ds)"

section \<open>The pattern auditor (validate-image-e2e-test.py)\<close>

text \<open>
  \<^verbatim>\<open>re.search(pattern, text, re.IGNORECASE | re.DOTALL)\<close> is a call into Python's
  library.  The functions of the auditor take it as the parameter \<open>search\<close>, which says
  whether the pattern matches somewhere in the text; everything proved about them holds for
  any matcher.  Patterns are the raw strings of the source; a backslash is written
  \<open>bs\<close>.  The \<^verbatim>\<open>print\<close> calls of the auditor do not change what its functions
  return and are left out, and with them the file size that \<^verbatim>\<open>validate_test_image_exists\<close>
  reads only to print it.
\<close>

type_synonym matcher = "string \<Rightarrow> string \<Rightarrow> bool"

definition bs :: string where
  "bs = [CHR 0x5C]"

definition tests_dir :: path where
  "tests_dir = ''/home/jsbattig/Dev/claude-server/claude-batch-server/tests/ClaudeBatchServer.IntegrationTests''"

definition test_file :: path where
  "test_file = tests_dir @ ''/ImageAnalysisE2ETests.cs''"

definition working_test :: path where
  "working_test = tests_dir @ ''/ComplexE2ETests.cs''"

definition image_path :: path where
  "image_path = tests_dir @ ''/test-image.png''"

definition csproj_path :: path where
  "csproj_path = tests_dir @ ''/ClaudeBatchServer.IntegrationTests.csproj''"

definition env_path :: path where
  "env_path = ''/home/jsbattig/Dev/claude-server/claude-batch-server/.env''"

definition read_file :: "filesystem \<Rightarrow> path \<Rightarrow> string option" where
  "read_file fs filepath = (case fs filepath of None \<Rightarrow> None | Some f \<Rightarrow> ftext f)"

definition patterns_to_check :: "(string \<times> string) list" where
  \<open>patterns_to_check =
    [(''WebApplicationFactory<Program>'', ''WebApplicationFactory usage''),
     (''IClassFixture<WebApplicationFactory<Program>>'', ''IClassFixture implementation''),
     (bs @ ''.env'', ''Environment file loading''),
     (''TEST_USERNAME.*TEST_PASSWORD'', ''Test credentials pattern''),
     (''LoginRequest'', ''Authentication request''),
     (''PostAsJsonAsync.*auth/login'', ''Login endpoint usage''),
     (''CreateAuthenticatedClient'', ''Authenticated client creation''),
     (''Authorization.*Bearer'', ''Bearer token authentication''),
     (''MultipartFormDataContent'', ''Image upload pattern''),
     (''MediaTypeHeaderValue.*image/png'', ''Image content type''),
     (''PostAsync.*images'', ''Image upload endpoint''),
     (''JobStatusResponse'', ''Job status checking''),
     (bs @ ''.Should'' @ bs @ ''('' @ bs @ '')'', ''FluentAssertions usage'')]\<close>

definition image_patterns :: "(string \<times> string) list" where
  \<open>image_patterns =
    [(''test-image'' @ bs @ ''.png'', ''Test image file reference''),
     (''File'' @ bs @ ''.ReadAllBytesAsync'', ''Image file reading''),
     (''ByteArrayContent.*imageBytes'', ''Image byte array handling''),
     (''image.*analysis.*prompt'', ''Image analysis prompt''),
     (''shapes.*colors.*text'', ''Expected analysis elements''),
     (''rectangle.*circle.*triangle'', ''Specific shape detection''),
     (''blue.*red.*green'', ''Color detection''),
     (''Output.*Should.*Contain'', ''Output validation assertions''),
     (''Length.*Should.*BeGreaterThan'', ''Response length validation'')]\<close>

definition auth_patterns :: "string list" where
  \<open>auth_patterns =
    [''var username = Environment'' @ bs @ ''.GetEnvironmentVariable'' @ bs @ ''("TEST_USERNAME"'' @ bs @ '');'',
     ''var password = Environment'' @ bs @ ''.GetEnvironmentVariable'' @ bs @ ''("TEST_PASSWORD"'' @ bs @ '');'',
     ''var loginRequest = new LoginRequest'',
     ''Username = username,'' @ bs @ ''s*Password = password'',
     ''await _client'' @ bs @ ''.PostAsJsonAsync'' @ bs @ ''("/auth/login"'',
     ''CreateAuthenticatedClient'' @ bs @ ''(loginResult'' @ bs @ ''.Token'' @ bs @ '')'']\<close>

definition required_packages :: "string list" where
  "required_packages =
    [''Microsoft.AspNetCore.Mvc.Testing'', ''FluentAssertions'', ''xunit'', ''DotNetEnv'']"

definition required_vars :: "string list" where
  "required_vars = [''TEST_USERNAME'', ''TEST_PASSWORD'']"

text \<open>
  The four loops of the auditor have one shape: a flag starts at \<^verbatim>\<open>True\<close> and is set to
  \<^verbatim>\<open>False\<close> by every item whose test fails; no item ends the loop early.
\<close>

fun check_each :: "('a \<Rightarrow> bool) \<Rightarrow> 'a list \<Rightarrow> bool \<Rightarrow> bool" where
  "check_each found [] all_found = all_found"
| "check_each found (x # xs) all_found =
     check_each found xs (if found x then all_found else False)"

definition validate_test_structure :: "matcher \<Rightarrow> filesystem \<Rightarrow> bool" where
  "validate_test_structure search fs =
     (if \<not> exists fs test_file then False
      else if \<not> exists fs working_test then False
      else
        let test_content = read_file fs test_file;
            working_content = read_file fs working_test
        in if not_str test_content \<or> not_str working_content then False
           else check_each (\<lambda>(pattern, description). search pattern (the test_content))
                  patterns_to_check True)"

definition validate_image_specific_logic :: "matcher \<Rightarrow> filesystem \<Rightarrow> bool" where
  "validate_image_specific_logic search fs =
     (let test_content = read_file fs test_file
      in if not_str test_content then False
         else check_each (\<lambda>(pattern, description). search pattern (the test_content))
                image_patterns True)"

definition validate_test_image_exists :: "filesystem \<Rightarrow> bool" where
  "validate_test_image_exists fs =
     (if \<not> exists fs image_path then False else True)"

definition validate_authentication_pattern :: "matcher \<Rightarrow> filesystem \<Rightarrow> bool" where
  "validate_authentication_pattern search fs =
     (let test_content = read_file fs test_file;
          working_content = read_file fs working_test
      in if not_str test_content \<or> not_str working_content then False
         else check_each (\<lambda>pattern. search pattern (the test_content)) auth_patterns True)"

definition validate_project_dependencies :: "filesystem \<Rightarrow> bool" where
  "validate_project_dependencies fs =
     (if \<not> exists fs csproj_path then False
      else
        let csproj_content = read_file fs csproj_path
        in if not_str csproj_content then False
           else check_each (\<lambda>package. str_in package (the csproj_content))
                  required_packages True)"

definition validate_env_file :: "filesystem \<Rightarrow> bool" where
  "validate_env_file fs =
     (if \<not> exists fs env_path then False
      else
        let env_content = read_file fs env_path
        in if not_str env_content then False
           else check_each (\<lambda>var. str_in var (the env_content)) required_vars True)"

text \<open>The auditor's \<^verbatim>\<open>main\<close> ends in \<^verbatim>\<open>sys.exit(exit_code)\<close>; the model returns that exit code.\<close>

definition validation_results :: "matcher \<Rightarrow> filesystem \<Rightarrow> (string \<times> bool) list" where
  "validation_results search fs =
    [(''Test Structure'', validate_test_structure search fs),
     (''Image Logic'', validate_image_specific_logic search fs),
     (''Test Image File'', validate_test_image_exists fs),
     (''Authentication'', validate_authentication_pattern search fs),
     (''Dependencies'', validate_project_dependencies fs),
     (''Environment'', validate_env_file fs)]"

definition main_auditor :: "matcher \<Rightarrow> filesystem \<Rightarrow> int" where
  "main_auditor search fs =
     (let all_passed = check_each (\<lambda>(name, result). result) (validation_results search fs) True
      in if all_passed then 0 else 1)"

section \<open>The image generator and validator (test-image-analysis.py)\<close>

text \<open>
  An image held in memory is the canvas \<^verbatim>\<open>Image.new\<close> made and the drawing calls applied
  to it, in order; how PIL turns them into pixels is not modelled.  Colours are the names
  the source passes; a text is recorded with the font it was drawn in.  The \<^verbatim>\<open>print\<close>
  calls of this script are left out.
\<close>

datatype font = Font string

datatype draw_op =
    Rectangle "int list" string string nat
  | Ellipse "int list" string string nat
  | Polygon "(int \<times> int) list" string string nat
  | Text "int \<times> int" string string font

record canvas =
  cmode :: string
  csize :: "nat \<times> nat"
  ccolor :: string
  drawn :: "draw_op list"

definition image_new :: "string \<Rightarrow> nat \<times> nat \<Rightarrow> string \<Rightarrow> canvas" where
  "image_new m sz c = \<lparr>cmode = m, csize = sz, ccolor = c, drawn = []\<rparr>"

definition draw :: "draw_op \<Rightarrow> canvas \<Rightarrow> canvas" where
  "draw op img = img\<lparr>drawn := drawn img @ [op]\<rparr>"

text \<open>
  What the script takes from PIL and the operating system when it writes an image:
  whether \<^verbatim>\<open>ImageFont.load_default()\<close> finds a font, whether \<^verbatim>\<open>img.save(path)\<close>
  raises (no image format for the extension of the path, no such directory, no
  permission), and the file the encoder writes for a canvas.
\<close>

record pil_env =
  load_default :: "exn + font"
  write_error :: "path \<Rightarrow> exn option"
  encode :: "canvas \<Rightarrow> file_node"

definition save :: "pil_env \<Rightarrow> canvas \<Rightarrow> path \<Rightarrow> filesystem \<Rightarrow> exn + filesystem" where
  "save env img p fs =
     (case write_error env p of
        Some e \<Rightarrow> Inl e
      | None \<Rightarrow> Inr (fs(p \<mapsto> encode env img)))"

text \<open>
  \<^verbatim>\<open>draw.text(xy, text, fill, font)\<close> draws in the font it is given; given \<^verbatim>\<open>None\<close> it
  asks \<^verbatim>\<open>ImageFont.load_default()\<close> for the font itself, and raises what that raises.  So
  when the source's own call of \<^verbatim>\<open>load_default\<close> has failed and left \<^verbatim>\<open>font = None\<close>,
  the first \<^verbatim>\<open>draw.text\<close> raises, before anything is saved.
\<close>

definition draw_text ::
  "pil_env \<Rightarrow> int \<times> int \<Rightarrow> string \<Rightarrow> string \<Rightarrow> font option \<Rightarrow> canvas \<Rightarrow> exn + canvas" where
  "draw_text env xy s fill font img =
     (case font of
        Some f \<Rightarrow> Inr (draw (Text xy s fill f) img)
      | None \<Rightarrow>
          (case load_default env of
             Inl e \<Rightarrow> Inl e
           | Inr f \<Rightarrow> Inr (draw (Text xy s fill f) img)))"

definition create_test_image :: "pil_env \<Rightarrow> path \<Rightarrow> filesystem \<Rightarrow> exn + canvas \<times> filesystem" where
  "create_test_image env output_path fs =
     (let img = image_new ''RGB'' (400, 300) ''white'';
          img = draw (Rectangle [50, 50, 150, 100] ''blue'' ''black'' 2) img;
          img = draw (Ellipse [200, 50, 300, 150] ''red'' ''black'' 2) img;
          img = draw (Polygon [(100, 200), (150, 250), (50, 250)] ''green'' ''black'' 2) img;
          font = (case load_default env of Inl e \<Rightarrow> None | Inr f \<Rightarrow> Some f)
      in case draw_text env (50, 10) ''Test Image'' ''black'' font img of
           Inl e \<Rightarrow> Inl e
         | Inr img \<Rightarrow>
             (case draw_text env (50, 270) ''Shapes: Rectangle, Circle, Triangle'' ''black'' font img of
                Inl e \<Rightarrow> Inl e
              | Inr img \<Rightarrow>
                  (case save env img output_path fs of
                     Inl e \<Rightarrow> Inl e
                   | Inr fs' \<Rightarrow> Inr (img, fs'))))"

text \<open>
  In \<^verbatim>\<open>analyze_test_image\<close> every exception raised inside the \<^verbatim>\<open>try\<close> block ends in
  \<^verbatim>\<open>return False\<close>.
\<close>

definition analyze_test_image :: "filesystem \<Rightarrow> path \<Rightarrow> bool" where
  "analyze_test_image fs image_path' =
     (if \<not> exists fs image_path' then False
      else
        case image_open fs image_path' of
          Inl e \<Rightarrow> False
        | Inr img \<Rightarrow>
            (case icolors img of
               Inl e \<Rightarrow> False
             | Inr colors \<Rightarrow>
                 (case getsize fs image_path' of
                    Inl e \<Rightarrow> False
                  | Inr file_size \<Rightarrow>
                      if file_size < 100 then False
                      else if isize img \<noteq> (400, 300) then False
                      else True)))"

text \<open>
  \<^verbatim>\<open>validate_test_setup\<close> imports PIL again, which cannot fail once the import at the
  head of the script has succeeded, and then looks for the test directory.
\<close>

definition validate_test_setup :: "filesystem \<Rightarrow> bool" where
  "validate_test_setup fs = (if exists fs tests_dir then True else False)"

text \<open>
  The script ends by \<^verbatim>\<open>sys.exit(1)\<close>, by falling off the end of \<^verbatim>\<open>main\<close> (exit code 0),
  or by an exception that \<^verbatim>\<open>create_test_image\<close> raised and nothing catches.  It is
  called \<open>main_image\<close> here, the auditor's \<^verbatim>\<open>main\<close> being \<open>main_auditor\<close>.
\<close>

datatype process_end = Exit int filesystem | Uncaught exn

definition main_image :: "pil_env \<Rightarrow> filesystem \<Rightarrow> process_end" where
  "main_image env fs =
     (if \<not> validate_test_setup fs then Exit 1 fs
      else
        case (if exists fs image_path then Inr fs
              else (case create_test_image env image_path fs of
                      Inl e \<Rightarrow> Inl e
                    | Inr (img, fs') \<Rightarrow> Inr fs')) of
          Inl e \<Rightarrow> Uncaught e
        | Inr fs' \<Rightarrow>
            if \<not> analyze_test_image fs' image_path then Exit 1 fs'
            else Exit 0 fs')"

section \<open>The authentication probe (debug-auth-test.py)\<close>

text \<open>
  A parsed JSON value, as \<^verbatim>\<open>response.json()\<close> returns it; an object is the list of the
  entries of the Python dictionary, its keys distinct.  Numbers are integers here.
\<close>

datatype json =
    JNull
  | JBool bool
  | JInt int
  | JStr string
  | JArr "json list"
  | JObj "(string \<times> json) list"

record response =
  status_code :: int
  resp_text :: string
  json_body :: "exn + json"

datatype request =
    Post string json
  | Get string "(string \<times> string) list"

text \<open>
  The server and the network are the function \<open>http\<close>: how a call of \<^verbatim>\<open>requests.post\<close>
  or \<^verbatim>\<open>requests.get\<close> ends.  The server replies; or \<^verbatim>\<open>requests\<close> raises an exception
  (all of its exceptions derive from \<^verbatim>\<open>Exception\<close>); or the user interrupts the wait and
  the call raises \<^verbatim>\<open>KeyboardInterrupt\<close>, which does not derive from \<^verbatim>\<open>Exception\<close>; or
  nothing ever comes back, and the call never returns, the source passing no timeout.
  \<open>py_str\<close> is Python's formatting of a value that is not a string inside an f-string.
\<close>

datatype answer =
    Replies response
  | Fails exn
  | Interrupt
  | Silent

type_synonym http = "request \<Rightarrow> answer"

definition api_base :: string where
  "api_base = ''http://localhost:5000''"

text \<open>Python's truth value of a JSON value (\<^verbatim>\<open>not token\<close> is its negation).\<close>

fun truthy :: "json \<Rightarrow> bool" where
  "truthy JNull = False"
| "truthy (JBool b) = b"
| "truthy (JInt n) = (n \<noteq> 0)"
| "truthy (JStr s) = (s \<noteq> [])"
| "truthy (JArr xs) = (xs \<noteq> [])"
| "truthy (JObj kvs) = (kvs \<noteq> [])"

text \<open>\<^verbatim>\<open>value.get(key)\<close>: only a dictionary has the method; a missing key gives \<^verbatim>\<open>None\<close>.\<close>

fun dict_get :: "json \<Rightarrow> string \<Rightarrow> exn + json" where
  "dict_get (JObj kvs) key = Inr (case map_of kvs key of None \<Rightarrow> JNull | Some v \<Rightarrow> v)"
| "dict_get v key = Inl (Error ''AttributeError: object has no attribute get'')"

text \<open>\<^verbatim>\<open>value[:50]\<close>: strings and lists can be sliced, anything else raises.\<close>

fun slice50 :: "json \<Rightarrow> exn + json" where
  "slice50 (JStr s) = Inr (JStr (take 50 s))"
| "slice50 (JArr xs) = Inr (JArr (take 50 xs))"
| "slice50 v = Inl (Error ''TypeError: object is not subscriptable'')"

definition format_value :: "(json \<Rightarrow> string) \<Rightarrow> json \<Rightarrow> string" where
  "format_value py_str v = (case v of JStr s \<Rightarrow> s | _ \<Rightarrow> py_str v)"

fun digits :: "nat \<Rightarrow> string" where
  "digits n =
     (if n < 10 then [char_of (48 + n)]
      else digits (n div 10) @ [char_of (48 + n mod 10)])"

declare digits.simps [simp del]

definition str_int :: "int \<Rightarrow> string" where
  "str_int i = (if i < 0 then ''-'' @ digits (nat (- i)) else digits (nat i))"

definition exn_str :: "exn \<Rightarrow> string" where
  "exn_str e = (case e of Error msg \<Rightarrow> msg)"

definition check_mark :: string where
  "check_mark = [CHR 0xE2, CHR 0x9C, CHR 0x85]"

definition cross_mark :: string where
  "cross_mark = [CHR 0xE2, CHR 0x9D, CHR 0x8C]"

text \<open>
  A run of \<^verbatim>\<open>test_auth\<close> is the lines it printed, the requests it issued, and how it
  ended: by returning, by an exception derived from \<^verbatim>\<open>Exception\<close>, by a
  \<^verbatim>\<open>KeyboardInterrupt\<close>, or not at all, blocked in a request.
\<close>

datatype ending = Returned | Raised exn | Interrupted | Blocked

record run =
  printed :: "string list"
  issued :: "request list"
  ended :: ending

definition login_data :: json where
  "login_data = JObj [(''username'', JStr ''jsbattig''), (''password'', JStr ''test123'')]"

definition login_request :: request where
  "login_request = Post (api_base @ ''/auth/login'') login_data"

definition test_auth :: "http \<Rightarrow> (json \<Rightarrow> string) \<Rightarrow> run" where
  "test_auth http py_str =
     (let out = [''1. Testing login...''];
          reqs = [login_request]
      in (case http login_request of
            Fails e \<Rightarrow> \<lparr>printed = out, issued = reqs, ended = Raised e\<rparr>
          | Interrupt \<Rightarrow> \<lparr>printed = out, issued = reqs, ended = Interrupted\<rparr>
          | Silent \<Rightarrow> \<lparr>printed = out, issued = reqs, ended = Blocked\<rparr>
          | Replies login_response \<Rightarrow>
             (let out = out @ [''Login Status: '' @ str_int (status_code login_response),
                               ''Login Response: '' @ resp_text login_response]
              in (if status_code login_response \<noteq> 200
                  then \<lparr>printed = out @ [''LOGIN FAILED!''], issued = reqs, ended = Returned\<rparr>
                  else
                   (case json_body login_response of
                      Inl e \<Rightarrow> \<lparr>printed = out, issued = reqs, ended = Raised e\<rparr>
                    | Inr login_result \<Rightarrow>
                       (case dict_get login_result ''token'' of
                          Inl e \<Rightarrow> \<lparr>printed = out, issued = reqs, ended = Raised e\<rparr>
                        | Inr token \<Rightarrow>
                           (if \<not> truthy token
                            then \<lparr>printed = out @ [''NO TOKEN RECEIVED!''], issued = reqs,
                                   ended = Returned\<rparr>
                            else
                             (case slice50 token of
                                Inl e \<Rightarrow> \<lparr>printed = out, issued = reqs, ended = Raised e\<rparr>
                              | Inr shown \<Rightarrow>
                                 (let out = out @ [''Token received: '' @ format_value py_str shown @ ''...''];
                                      headers = [(''Authorization'', ''Bearer '' @ format_value py_str token)];
                                      out = out @ [''2. Testing authenticated request...''];
                                      repo_request = Get (api_base @ ''/repositories'') headers;
                                      reqs = reqs @ [repo_request]
                                  in (case http repo_request of
                                        Fails e \<Rightarrow> \<lparr>printed = out, issued = reqs, ended = Raised e\<rparr>
                                      | Interrupt \<Rightarrow>
                                          \<lparr>printed = out, issued = reqs, ended = Interrupted\<rparr>
                                      | Silent \<Rightarrow> \<lparr>printed = out, issued = reqs, ended = Blocked\<rparr>
                                      | Replies repo_response \<Rightarrow>
                                         (let out = out @
                                                [''Repositories Status: '' @ str_int (status_code repo_response),
                                                 ''Repositories Response: '' @ resp_text repo_response]
                                          in (if status_code repo_response = 200
                                              then \<lparr>printed = out @ [check_mark @ '' Authentication working!''],
                                                     issued = reqs, ended = Returned\<rparr>
                                              else \<lparr>printed = out @ [cross_mark @ '' Authentication failed!''],
                                                     issued = reqs, ended = Returned\<rparr>))))))))))))"

text \<open>
  The script sets two environment variables, which nothing reads, and calls
  \<^verbatim>\<open>test_auth\<close> inside \<^verbatim>\<open>try\<close> ... \<^verbatim>\<open>except Exception as e: print(f"Error: {e}")\<close>.
  The handler catches what derives from \<^verbatim>\<open>Exception\<close>; the script then reaches the end
  of the file and exits with code 0.  A \<^verbatim>\<open>KeyboardInterrupt\<close> passes the handler and
  leaves the script.  While \<^verbatim>\<open>test_auth\<close> is blocked in a request the script does not
  end.
\<close>

datatype script_end = Exited int | Propagated | Never_ends

record script_run =
  script_printed :: "string list"
  script_issued :: "request list"
  script_ended :: script_end

definition auth_script :: "http \<Rightarrow> (json \<Rightarrow> string) \<Rightarrow> script_run" where
  "auth_script http py_str =
     (let r = test_auth http py_str
      in case ended r of
           Returned \<Rightarrow>
             \<lparr>script_printed = printed r, script_issued = issued r, script_ended = Exited 0\<rparr>
         | Raised e \<Rightarrow>
             \<lparr>script_printed = printed r @ [''Error: '' @ exn_str e], script_issued = issued r,
               script_ended = Exited 0\<rparr>
         | Interrupted \<Rightarrow>
             \<lparr>script_printed = printed r, script_issued = issued r, script_ended = Propagated\<rparr>
         | Blocked \<Rightarrow>
             \<lparr>script_printed = printed r, script_issued = issued r, script_ended = Never_ends\<rparr>)"

section \<open>A matcher and sample inputs\<close>

text \<open>
  \<open>re_search\<close> is a matcher for the part of the regular-expression syntax that the pattern
  lists use, on ASCII text: a literal character, compared without regard to case; a
  backslash before a punctuation character, which makes it literal; \<^verbatim>\<open>.*\<close>, any
  characters (line breaks too, under \<^verbatim>\<open>re.DOTALL\<close>); \<^verbatim>\<open>\s*\<close>, any white space.  A
  pattern outside that part is not parsed and matches nothing.  The sample inputs are
  evaluated with it.
\<close>

datatype rx = Lit char char | AnyStar | SpaceStar

definition to_lower :: "char \<Rightarrow> char" where
  "to_lower c = (case map_of (zip ''ABCDEFGHIJKLMNOPQRSTUVWXYZ'' ''abcdefghijklmnopqrstuvwxyz'') c of
                   None \<Rightarrow> c | Some l \<Rightarrow> l)"

definition to_upper :: "char \<Rightarrow> char" where
  "to_upper c = (case map_of (zip ''abcdefghijklmnopqrstuvwxyz'' ''ABCDEFGHIJKLMNOPQRSTUVWXYZ'') c of
                   None \<Rightarrow> c | Some l \<Rightarrow> l)"

definition lit :: "char \<Rightarrow> rx" where
  "lit c = Lit (to_lower c) (to_upper c)"

definition special :: "char \<Rightarrow> bool" where
  \<open>special c = (c \<in> set ''.^$*+?{}[]|()'')\<close>

fun parse :: "string \<Rightarrow> rx list option" where
  "parse [] = Some []"
| "parse [c] = (if c = CHR 0x5C \<or> special c then None else Some [lit c])"
| "parse (c # d # cs) =
     (if c = CHR 0x5C then
        (if special d then map_option (Cons (lit d)) (parse cs)
         else if d = CHR ''s'' then
           (case cs of [] \<Rightarrow> None
            | e # es \<Rightarrow> if e = CHR ''*'' then map_option (Cons SpaceStar) (parse es) else None)
         else None)
      else if c = CHR ''.'' then
        (if d = CHR ''*'' then map_option (Cons AnyStar) (parse cs) else None)
      else if special c \<or> d \<in> set ''*+?{'' then None
      else map_option (Cons (lit c)) (parse (d # cs)))"

definition is_space :: "char \<Rightarrow> bool" where
  "is_space c =
     (c \<in> set [CHR 0x09, CHR 0x0A, CHR 0x0B, CHR 0x0C, CHR 0x0D,
                 CHR 0x1C, CHR 0x1D, CHR 0x1E, CHR 0x1F, CHR 0x20])"

fun match_here :: "rx list \<Rightarrow> string \<Rightarrow> bool" where
  "match_here [] s = True"
| "match_here (Lit l u # r) [] = False"
| "match_here (Lit l u # r) (d # ds) = (if d = l \<or> d = u then match_here r ds else False)"
| "match_here (AnyStar # r) [] = match_here r []"
| "match_here (AnyStar # r) (d # ds) =
     (if match_here r (d # ds) then True else match_here (AnyStar # r) ds)"
| "match_here (SpaceStar # r) [] = match_here r []"
| "match_here (SpaceStar # r) (d # ds) =
     (if match_here r (d # ds) then True
      else if is_space d then match_here (SpaceStar # r) ds else False)"

fun match_anywhere :: "rx list \<Rightarrow> string \<Rightarrow> bool" where
  "match_anywhere r [] = match_here r []"
| "match_anywhere r (d # ds) = (if match_here r (d # ds) then True else match_anywhere r ds)"

definition re_search :: matcher where
  "re_search pattern subject =
     (case parse pattern of None \<Rightarrow> False | Some r \<Rightarrow> match_anywhere r subject)"

text \<open>
  A sample of the files the auditor reads: a test file in which every pattern of the three
  lists occurs, a reference file in which none does, a project file and an environment file.
\<close>

definition nl :: string where
  "nl = [CHR 0x0A]"

definition sample_lines :: "string list" where
  \<open>sample_lines =
    [''public class ImageAnalysisE2ETests : IClassFixture<WebApplicationFactory<Program>> {'',
     ''// TEST_USERNAME and TEST_PASSWORD come from ../.env'',
     ''var username = Environment.GetEnvironmentVariable("TEST_USERNAME");'',
     ''var password = Environment.GetEnvironmentVariable("TEST_PASSWORD");'',
     ''var loginRequest = new LoginRequest { Username = username, Password = password };'',
     ''var login = await _client.PostAsJsonAsync("/auth/login", loginRequest);'',
     ''var client = CreateAuthenticatedClient(loginResult.Token);'',
     ''client.DefaultRequestHeaders.Authorization = new("Bearer", token);'',
     ''var form = new MultipartFormDataContent();'',
     ''var imageBytes = await File.ReadAllBytesAsync("test-image.png");'',
     ''var part = new ByteArrayContent(imageBytes);'',
     ''part.Headers.ContentType = new MediaTypeHeaderValue("image/png");'',
     ''await client.PostAsync("/jobs/1/images", form);'',
     ''// image analysis prompt: shapes, colors, text'',
     ''// rectangle, circle, triangle in blue, red, green'',
     ''JobStatusResponse status;'',
     ''status.Output.Should().Contain("triangle");'',
     ''status.Output.Length.Should().BeGreaterThan(100); }'']\<close>

definition unlines :: "string list \<Rightarrow> string" where
  "unlines ls = concat (map (\<lambda>l. l @ nl) ls)"

definition sample_test_content :: string where
  "sample_test_content = unlines sample_lines"

definition found_in_a_line :: "string list \<Rightarrow> string \<Rightarrow> bool" where
  "found_in_a_line ls pattern =
     (case parse pattern of None \<Rightarrow> False | Some r \<Rightarrow> list_ex (match_anywhere r) ls)"

definition sample_working_content :: string where
  "sample_working_content = ''public class ComplexE2ETests { }''"

definition sample_csproj_content :: string where
  \<open>sample_csproj_content =
     ''<PackageReference Include="Microsoft.AspNetCore.Mvc.Testing" />'' @
     ''<PackageReference Include="FluentAssertions" />'' @
     ''<PackageReference Include="xunit" />'' @
     ''<PackageReference Include="DotNetEnv" />''\<close>

definition sample_env_content :: string where
  "sample_env_content = ''TEST_USERNAME=jsbattig'' @ nl @ ''TEST_PASSWORD=test123'' @ nl"

definition text_file :: "string \<Rightarrow> file_node" where
  "text_file c = \<lparr>fsize = length c, ftext = Some c, fimage = Inl (Error ''cannot identify image file'')\<rparr>"

definition sample_image :: pil_image where
  "sample_image = \<lparr>isize = (400, 300), imode = ''RGB'', icolors = Inr None\<rparr>"

definition image_file :: "nat \<Rightarrow> pil_image \<Rightarrow> file_node" where
  "image_file n img = \<lparr>fsize = n, ftext = None, fimage = Inr img\<rparr>"

definition directory :: file_node where
  "directory = \<lparr>fsize = 4096, ftext = None, fimage = Inl (Error ''IsADirectoryError'')\<rparr>"

definition sample_fs :: filesystem where
  "sample_fs =
     [tests_dir \<mapsto> directory,
      test_file \<mapsto> text_file sample_test_content,
      working_test \<mapsto> text_file sample_working_content,
      image_path \<mapsto> image_file 2417 sample_image,
      csproj_path \<mapsto> text_file sample_csproj_content,
      env_path \<mapsto> text_file sample_env_content]"

text \<open>
  The words of the specification: every listed regex matches at least once in the target
  file; some listed regex matches in a text; a file reads as non-empty text; a file
  contains every string of a list.
\<close>

definition all_regexes :: "string list" where
  "all_regexes = map fst patterns_to_check @ map fst image_patterns @ auth_patterns"

definition every_regex_matches :: "matcher \<Rightarrow> filesystem \<Rightarrow> bool" where
  "every_regex_matches search fs =
     (case read_file fs test_file of
        None \<Rightarrow> False
      | Some content \<Rightarrow> list_all (\<lambda>pattern. search pattern content) all_regexes)"

definition some_regex_matches :: "matcher \<Rightarrow> string \<Rightarrow> bool" where
  "some_regex_matches search content = list_ex (\<lambda>pattern. search pattern content) all_regexes"

definition reads_nonempty :: "filesystem \<Rightarrow> path \<Rightarrow> bool" where
  "reads_nonempty fs p = (case read_file fs p of None \<Rightarrow> False | Some c \<Rightarrow> c \<noteq> [])"

definition contains_all :: "filesystem \<Rightarrow> path \<Rightarrow> string list \<Rightarrow> bool" where
  "contains_all fs p needles =
     (case read_file fs p of None \<Rightarrow> False | Some c \<Rightarrow> list_all (\<lambda>needle. str_in needle c) needles)"

definition fs_without_env :: filesystem where
  "fs_without_env = sample_fs(env_path := None)"

definition fs_without_image :: filesystem where
  "fs_without_image = sample_fs(image_path := None)"

definition fs_without_csproj :: filesystem where
  "fs_without_csproj = sample_fs(csproj_path := None)"

text \<open>
  Sample image files: a file of exactly 100 bytes that opens as a 400 by 300 image (a
  PNG file of a black one-bit picture of that size: 8 bytes of signature, 25 of header, a
  data chunk around a zlib stream of 43 bytes, 12 of end chunk), a longer file cut off
  inside its pixel data, so that it opens and fails to load, and a file that is no image.  Two
  environments for writing images: one that finds the default font and knows the
  extension \<^verbatim>\<open>.png\<close> only, one in which no default font can be loaded.
\<close>

definition blank_image :: pil_image where
  "blank_image = \<lparr>isize = (400, 300), imode = ''1'', icolors = Inr (Some [(120000, [0])])\<rparr>"

definition truncated_image :: pil_image where
  "truncated_image =
     \<lparr>isize = (400, 300), imode = ''RGB'', icolors = Inl (Error ''OSError: image file is truncated'')\<rparr>"

definition hundred_byte_fs :: filesystem where
  "hundred_byte_fs = [image_path \<mapsto> image_file 100 blank_image]"

definition truncated_fs :: filesystem where
  "truncated_fs = [image_path \<mapsto> image_file 2000 truncated_image]"

definition ends_with :: "string \<Rightarrow> string \<Rightarrow> bool" where
  "ends_with suffix s = (drop (length s - length suffix) s = suffix)"

definition sample_env :: pil_env where
  "sample_env =
     \<lparr>load_default = Inr (Font ''default''),
      write_error = (\<lambda>p. if ends_with ''.png'' p then None
                          else Some (Error ''ValueError: unknown file extension'')),
      encode = (\<lambda>img. image_file 2417 \<lparr>isize = csize img, imode = cmode img, icolors = Inr None\<rparr>)\<rparr>"

definition fontless_env :: pil_env where
  "fontless_env =
     \<lparr>load_default = Inl (Error ''OSError: cannot open resource''),
      write_error = (\<lambda>p. None),
      encode = (\<lambda>img. image_file 2391 \<lparr>isize = csize img, imode = cmode img, icolors = Inr None\<rparr>)\<rparr>"

definition junk_fs :: filesystem where
  "junk_fs = sample_fs(image_path \<mapsto> text_file ''not an image'')"

text \<open>
  The picture the specification describes, at the places the source draws it, in a given
  font; the file system an empty one becomes when the picture is generated in the sample
  environment; and what can be read off a canvas: the shapes with their colours, the texts
  with their colour, whether a drawing is a shape, and a text with its place and colour.
\<close>

definition expected_image :: "font \<Rightarrow> canvas" where
  "expected_image font =
     \<lparr>cmode = ''RGB'', csize = (400, 300), ccolor = ''white'',
      drawn = [Rectangle [50, 50, 150, 100] ''blue'' ''black'' 2,
               Ellipse [200, 50, 300, 150] ''red'' ''black'' 2,
               Polygon [(100, 200), (150, 250), (50, 250)] ''green'' ''black'' 2,
               Text (50, 10) ''Test Image'' ''black'' font,
               Text (50, 270) ''Shapes: Rectangle, Circle, Triangle'' ''black'' font]\<rparr>"

definition generated_fs :: filesystem where
  "generated_fs = [image_path \<mapsto> encode sample_env (expected_image (Font ''default''))]"

fun shape_of :: "draw_op \<Rightarrow> (string \<times> string \<times> string) option" where
  "shape_of (Rectangle xy fill outline width) = Some (''rectangle'', fill, outline)"
| "shape_of (Ellipse xy fill outline width) = Some (''ellipse'', fill, outline)"
| "shape_of (Polygon points fill outline width) =
     Some (if length points = 3 then ''triangle'' else ''polygon'', fill, outline)"
| "shape_of (Text xy s fill f) = None"

fun text_of :: "draw_op \<Rightarrow> (string \<times> string) option" where
  "text_of (Text xy s fill f) = Some (s, fill)"
| "text_of shape = None"

fun is_shape :: "draw_op \<Rightarrow> bool" where
  "is_shape (Text xy s fill f) = False"
| "is_shape shape = True"

fun text_at :: "draw_op \<Rightarrow> ((int \<times> int) \<times> string \<times> string) option" where
  "text_at (Text xy s fill f) = Some (xy, s, fill)"
| "text_at shape = None"

text \<open>
  The words of the specification for the login reply: it has a non-empty token; its body
  is a JSON object; and for a request: the call returns, with a reply or an exception
  derived from \<^verbatim>\<open>Exception\<close>.  Then sample servers: one that refuses the login, two that
  answer 200 with a JSON object without a usable token, one that answers 200 with a JSON
  array, one that cannot be reached, one that works, one that never answers, one whose
  user interrupts the wait, and one that hands out a token and then treats the request for
  the repositories in a given way.
\<close>

definition has_token :: "response \<Rightarrow> bool" where
  "has_token r =
     (case json_body r of
        Inr (JObj kvs) \<Rightarrow> (case map_of kvs ''token'' of None \<Rightarrow> False | Some v \<Rightarrow> truthy v)
      | _ \<Rightarrow> False)"

definition is_object :: "exn + json \<Rightarrow> bool" where
  "is_object j = (case j of Inr (JObj kvs) \<Rightarrow> True | _ \<Rightarrow> False)"

definition returns :: "http \<Rightarrow> request \<Rightarrow> bool" where
  "returns http req =
     (case http req of Replies r \<Rightarrow> True | Fails e \<Rightarrow> True | Interrupt \<Rightarrow> False | Silent \<Rightarrow> False)"

definition reply :: "int \<Rightarrow> string \<Rightarrow> exn + json \<Rightarrow> response" where
  "reply code body parsed = \<lparr>status_code = code, resp_text = body, json_body = parsed\<rparr>"

definition http_unauthorized :: http where
  "http_unauthorized req = Replies (reply 401 ''Unauthorized'' (Inl (Error ''JSONDecodeError'')))"

definition http_no_token :: http where
  "http_no_token req = Replies (reply 200 ''{}'' (Inr (JObj [])))"

definition http_empty_token :: http where
  \<open>http_empty_token req = Replies (reply 200 ''{"token": ""}'' (Inr (JObj [(''token'', JStr '''')])))\<close>

definition http_array :: http where
  "http_array req = Replies (reply 200 ''[]'' (Inr (JArr [])))"

definition http_down :: http where
  "http_down req = Fails (Error ''ConnectionError: connection refused'')"

definition http_silent :: http where
  "http_silent req = Silent"

definition http_interrupted :: http where
  "http_interrupted req = Interrupt"

definition http_after_login :: "answer \<Rightarrow> http" where
  \<open>http_after_login a req =
     (case req of
        Post url body \<Rightarrow> Replies (reply 200 ''{"token": "abc"}'' (Inr (JObj [(''token'', JStr ''abc'')])))
      | Get url headers \<Rightarrow> a)\<close>

definition http_ok :: http where
  \<open>http_ok req =
     (case req of
        Post url body \<Rightarrow> Replies (reply 200 ''{"token": "abc"}'' (Inr (JObj [(''token'', JStr ''abc'')])))
      | Get url headers \<Rightarrow>
          if headers = [(''Authorization'', ''Bearer abc'')]
          then Replies (reply 200 ''[]'' (Inr (JArr [])))
          else Replies (reply 401 '''' (Inl (Error ''JSONDecodeError''))))\<close>

definition no_format :: "json \<Rightarrow> string" where
  "no_format v = ''?''"

section \<open>Properties of the pattern auditor\<close>

subsection \<open>The sample matcher\<close>

lemma match_here_append: "match_here r xs \<Longrightarrow> match_here r (xs @ ys)"
proof (induction r xs rule: match_here.induct)
  case (4 r)
  then have "match_here r ys" by simp
  then show ?case by (cases ys) simp_all
next
  case (6 r)
  then have "match_here r ys" by simp
  then show ?case by (cases ys) simp_all
qed (auto split: if_splits)

lemma match_anywhere_append: "match_anywhere r xs \<Longrightarrow> match_anywhere r (xs @ ys)"
proof (induction xs)
  case Nil
  then have "match_here r ([] @ ys)" using match_here_append [of r "[]" ys] by simp
  then show ?case by (cases ys) simp_all
next
  case (Cons x xs)
  then show ?case using match_here_append [of r "x # xs" ys] by (auto split: if_splits)
qed

lemma match_anywhere_prepend: "match_anywhere r ys \<Longrightarrow> match_anywhere r (xs @ ys)"
  by (induction xs) auto

lemma re_search_unlines:
  assumes "found_in_a_line ls pattern"
  shows "re_search pattern (unlines ls)"
proof (cases "parse pattern")
  case None
  with assms show ?thesis
    by (simp add: found_in_a_line_def)
next
  case (Some r)
  from assms obtain l where l: "l \<in> set ls" "match_anywhere r l"
    by (auto simp: found_in_a_line_def Some list_ex_iff)
  have "match_anywhere r (unlines ls)" using l(1)
  proof (induction ls)
    case Nil
    then show ?case by simp
  next
    case (Cons a ls)
    show ?case
    proof (cases "l = a")
      case True
      have "match_anywhere r ((a @ nl) @ unlines ls)"
        using l(2) True by (intro match_anywhere_append) simp
      then show ?thesis by (simp add: unlines_def)
    next
      case False
      with Cons have "match_anywhere r (unlines ls)" by simp
      then have "match_anywhere r ((a @ nl) @ unlines ls)" by (rule match_anywhere_prepend)
      then show ?thesis by (simp add: unlines_def)
    qed
  qed
  then show ?thesis by (simp add: re_search_def Some)
qed

subsection \<open>The loops\<close>

lemma check_each_list_all: "check_each found xs b = (b \<and> list_all found xs)"
  by (induction xs arbitrary: b) auto

lemma not_str_iff: "not_str s \<longleftrightarrow> s = None \<or> s = Some []"
  by (cases s) (auto simp: not_str_def)

lemma read_file_exists: "read_file fs p = Some c \<Longrightarrow> exists fs p"
  by (auto simp: read_file_def exists_def split: option.splits)

lemma validate_test_structure_iff:
  "validate_test_structure search fs \<longleftrightarrow>
     (\<exists>c w. read_file fs test_file = Some c \<and> c \<noteq> [] \<and>
            read_file fs working_test = Some w \<and> w \<noteq> [] \<and>
            list_all (\<lambda>(pattern, description). search pattern c) patterns_to_check)"
  by (auto simp: validate_test_structure_def Let_def check_each_list_all not_str_iff
      dest: read_file_exists)

lemma validate_image_specific_logic_iff:
  "validate_image_specific_logic search fs \<longleftrightarrow>
     (\<exists>c. read_file fs test_file = Some c \<and> c \<noteq> [] \<and>
          list_all (\<lambda>(pattern, description). search pattern c) image_patterns)"
  by (auto simp: validate_image_specific_logic_def Let_def check_each_list_all not_str_iff)

lemma validate_authentication_pattern_iff:
  "validate_authentication_pattern search fs \<longleftrightarrow>
     (\<exists>c w. read_file fs test_file = Some c \<and> c \<noteq> [] \<and>
            read_file fs working_test = Some w \<and> w \<noteq> [] \<and>
            list_all (\<lambda>pattern. search pattern c) auth_patterns)"
  by (auto simp: validate_authentication_pattern_def Let_def check_each_list_all not_str_iff)

lemma validate_project_dependencies_iff:
  "validate_project_dependencies fs \<longleftrightarrow>
     (\<exists>c. read_file fs csproj_path = Some c \<and> c \<noteq> [] \<and>
          list_all (\<lambda>package. str_in package c) required_packages)"
  by (auto simp: validate_project_dependencies_def Let_def check_each_list_all not_str_iff
      dest: read_file_exists)

lemma validate_env_file_iff:
  "validate_env_file fs \<longleftrightarrow>
     (\<exists>c. read_file fs env_path = Some c \<and> c \<noteq> [] \<and>
          list_all (\<lambda>var. str_in var c) required_vars)"
  by (auto simp: validate_env_file_def Let_def check_each_list_all not_str_iff
      dest: read_file_exists)

lemma main_auditor_sections:
  "main_auditor search fs =
     (if validate_test_structure search fs \<and> validate_image_specific_logic search fs \<and>
         validate_test_image_exists fs \<and> validate_authentication_pattern search fs \<and>
         validate_project_dependencies fs \<and> validate_env_file fs
      then 0 else 1)"
  by (simp add: main_auditor_def validation_results_def check_each_list_all)

subsection \<open>The sample inputs\<close>

lemma paths_distinct:
  "distinct [tests_dir, test_file, working_test, image_path, csproj_path, env_path]"
  by (simp add: test_file_def working_test_def image_path_def csproj_path_def env_path_def
      tests_dir_def)

lemma sample_fs_lookup:
  "sample_fs tests_dir = Some directory"
  "sample_fs test_file = Some (text_file sample_test_content)"
  "sample_fs working_test = Some (text_file sample_working_content)"
  "sample_fs image_path = Some (image_file 2417 sample_image)"
  "sample_fs csproj_path = Some (text_file sample_csproj_content)"
  "sample_fs env_path = Some (text_file sample_env_content)"
  using paths_distinct by (auto simp: sample_fs_def)

lemma sample_test_content_nonempty: "sample_test_content \<noteq> []"
  by (simp add: sample_test_content_def unlines_def sample_lines_def)

lemma sample_lines_match: "list_all (found_in_a_line sample_lines) all_regexes"
  by code_simp

lemma sample_content_matches:
  "list_all (\<lambda>pattern. re_search pattern sample_test_content) all_regexes"
  using sample_lines_match
  by (simp add: list_all_iff sample_test_content_def re_search_unlines)

lemma sample_csproj_has_packages:
  "list_all (\<lambda>package. str_in package sample_csproj_content) required_packages"
  by code_simp

lemma sample_env_has_vars:
  "list_all (\<lambda>var. str_in var sample_env_content) required_vars"
  by code_simp

lemma sample_reference_matches_nothing:
  "\<not> some_regex_matches re_search sample_working_content"
  by code_simp

lemma sample_read:
  "read_file sample_fs test_file = Some sample_test_content"
  "read_file sample_fs working_test = Some sample_working_content"
  "read_file sample_fs csproj_path = Some sample_csproj_content"
  "read_file sample_fs env_path = Some sample_env_content"
  by (simp_all add: read_file_def sample_fs_lookup text_file_def)

lemma read_file_upd_other: "p \<noteq> q \<Longrightarrow> read_file (fs(q := v)) p = read_file fs p"
  by (simp add: read_file_def)

lemma sample_sections:
  "validate_test_structure re_search sample_fs"
  "validate_image_specific_logic re_search sample_fs"
  "validate_test_image_exists sample_fs"
  "validate_authentication_pattern re_search sample_fs"
  "validate_project_dependencies sample_fs"
  "validate_env_file sample_fs"
  using sample_content_matches sample_csproj_has_packages sample_env_has_vars
    sample_test_content_nonempty
  by (simp_all add: validate_test_structure_iff validate_image_specific_logic_iff
      validate_authentication_pattern_iff validate_project_dependencies_iff
      validate_env_file_iff validate_test_image_exists_def exists_def sample_read
      sample_fs_lookup all_regexes_def list_all_iff sample_working_content_def
      sample_csproj_content_def sample_env_content_def split_beta)

subsection \<open>The exit code of the auditor\<close>

lemma contains_all_nonempty:
  "needles \<noteq> [] \<Longrightarrow> [] \<notin> set needles \<Longrightarrow> contains_all fs p needles \<Longrightarrow> reads_nonempty fs p"
  by (cases needles) (auto simp: contains_all_def reads_nonempty_def split: option.splits)

text \<open>
  Claim C1 says that the auditor exits with code 0 if and only if every regex of its three
  lists matches in the target test file.  That fails: in the sample file system without the
  \<^verbatim>\<open>.env\<close> file every regex matches in the target file, and the exit code is 1.
\<close>

theorem all_regexes_match_but_exit_1:
  "every_regex_matches re_search fs_without_env \<and> main_auditor re_search fs_without_env = 1"
proof -
  have neq: "test_file \<noteq> env_path" using paths_distinct by auto
  have "read_file fs_without_env test_file = Some sample_test_content"
    by (simp add: fs_without_env_def read_file_upd_other neq sample_read)
  then have "every_regex_matches re_search fs_without_env"
    by (simp add: every_regex_matches_def sample_content_matches)
  moreover have "\<not> validate_env_file fs_without_env"
    by (simp add: validate_env_file_def exists_def fs_without_env_def)
  ultimately show ?thesis by (simp add: main_auditor_sections)
qed

text \<open>
  Claim C1, amended: the auditor exits with code 0 if and only if every regex of its three
  lists matches in the target test file, which reads as non-empty text, and moreover the
  reference file reads as non-empty text, the test image exists, the project file contains
  the four package names and the environment file contains both variable names; otherwise
  it exits with code 1.
\<close>

theorem main_auditor_exit_code:
  "main_auditor search fs =
     (if every_regex_matches search fs \<and> reads_nonempty fs test_file \<and>
         reads_nonempty fs working_test \<and> exists fs image_path \<and>
         contains_all fs csproj_path required_packages \<and>
         contains_all fs env_path required_vars
      then 0 else 1)"
proof -
  have pk: "contains_all fs csproj_path required_packages \<Longrightarrow> reads_nonempty fs csproj_path"
    by (rule contains_all_nonempty) (simp_all add: required_packages_def)
  have ev: "contains_all fs env_path required_vars \<Longrightarrow> reads_nonempty fs env_path"
    by (rule contains_all_nonempty) (simp_all add: required_vars_def)
  have deps: "validate_project_dependencies fs \<longleftrightarrow> contains_all fs csproj_path required_packages"
    using pk by (auto simp: validate_project_dependencies_iff contains_all_def reads_nonempty_def
        split: option.splits)
  have env: "validate_env_file fs \<longleftrightarrow> contains_all fs env_path required_vars"
    using ev by (auto simp: validate_env_file_iff contains_all_def reads_nonempty_def
        split: option.splits)
  have rx: "validate_test_structure search fs \<and> validate_image_specific_logic search fs \<and>
            validate_authentication_pattern search fs \<longleftrightarrow>
            every_regex_matches search fs \<and> reads_nonempty fs test_file \<and>
            reads_nonempty fs working_test"
    by (auto simp: validate_test_structure_iff validate_image_specific_logic_iff
        validate_authentication_pattern_iff every_regex_matches_def reads_nonempty_def
        all_regexes_def list_all_iff split_beta split: option.splits)
  show ?thesis
    unfolding main_auditor_sections validate_test_image_exists_def
    using rx deps env by auto
qed

text \<open>The amended claim at the sample file system, and at the one without \<^verbatim>\<open>.env\<close>.\<close>

theorem main_auditor_exit_code_witness:
  "main_auditor re_search sample_fs = 0 \<and> main_auditor re_search fs_without_env = 1"
proof -
  have neq: "test_file \<noteq> env_path" "working_test \<noteq> env_path" "image_path \<noteq> env_path"
    "csproj_path \<noteq> env_path"
    using paths_distinct by auto
  have a: "every_regex_matches re_search sample_fs" "reads_nonempty sample_fs test_file"
    "reads_nonempty sample_fs working_test" "exists sample_fs image_path"
    "contains_all sample_fs csproj_path required_packages"
    "contains_all sample_fs env_path required_vars"
    using sample_content_matches sample_csproj_has_packages sample_env_has_vars
      sample_test_content_nonempty
    by (simp_all add: every_regex_matches_def reads_nonempty_def contains_all_def sample_read
        exists_def sample_fs_lookup sample_working_content_def)
  have b: "\<not> contains_all fs_without_env env_path required_vars"
    by (simp add: contains_all_def read_file_def fs_without_env_def)
  show ?thesis
    using main_auditor_exit_code [of re_search sample_fs]
      main_auditor_exit_code [of re_search fs_without_env] a b
    by simp
qed

subsection \<open>Missing files\<close>

text \<open>
  Claim C3: a missing \<^verbatim>\<open>.env\<close> file, a missing \<^verbatim>\<open>test-image.png\<close> and a missing
  \<^verbatim>\<open>.csproj\<close> file each make the check of their section (\<^verbatim>\<open>validate_env_file\<close>,
  \<^verbatim>\<open>validate_test_image_exists\<close>, \<^verbatim>\<open>validate_project_dependencies\<close>) return failure,
  and the script then exits with code 1.
\<close>

theorem missing_file_fails:
  "(\<not> exists fs env_path \<longrightarrow> \<not> validate_env_file fs \<and> main_auditor search fs = 1) \<and>
   (\<not> exists fs image_path \<longrightarrow> \<not> validate_test_image_exists fs \<and> main_auditor search fs = 1) \<and>
   (\<not> exists fs csproj_path \<longrightarrow>
      \<not> validate_project_dependencies fs \<and> main_auditor search fs = 1)"
  by (simp add: main_auditor_sections validate_env_file_def validate_test_image_exists_def
      validate_project_dependencies_def)

text \<open>
  Claim C3 at three file systems, each the sample without one of the three files and with
  the other two in place.
\<close>

theorem missing_file_fails_witness:
  "\<not> exists fs_without_env env_path \<and> exists fs_without_env image_path \<and>
     exists fs_without_env csproj_path \<and>
     \<not> validate_env_file fs_without_env \<and> main_auditor re_search fs_without_env = 1 \<and>
   \<not> exists fs_without_image image_path \<and> exists fs_without_image env_path \<and>
     exists fs_without_image csproj_path \<and>
     \<not> validate_test_image_exists fs_without_image \<and> main_auditor re_search fs_without_image = 1 \<and>
   \<not> exists fs_without_csproj csproj_path \<and> exists fs_without_csproj env_path \<and>
     exists fs_without_csproj image_path \<and>
     \<not> validate_project_dependencies fs_without_csproj \<and>
     main_auditor re_search fs_without_csproj = 1"
proof -
  have neq: "image_path \<noteq> env_path" "csproj_path \<noteq> env_path" "env_path \<noteq> image_path"
    "csproj_path \<noteq> image_path" "env_path \<noteq> csproj_path" "image_path \<noteq> csproj_path"
    using paths_distinct by auto
  have e: "\<not> exists fs_without_env env_path" "exists fs_without_env image_path"
    "exists fs_without_env csproj_path"
    by (simp_all add: fs_without_env_def exists_def neq sample_fs_lookup)
  have i: "\<not> exists fs_without_image image_path" "exists fs_without_image env_path"
    "exists fs_without_image csproj_path"
    by (simp_all add: fs_without_image_def exists_def neq sample_fs_lookup)
  have c: "\<not> exists fs_without_csproj csproj_path" "exists fs_without_csproj env_path"
    "exists fs_without_csproj image_path"
    by (simp_all add: fs_without_csproj_def exists_def neq sample_fs_lookup)
  show ?thesis
    using missing_file_fails [of fs_without_env re_search]
      missing_file_fails [of fs_without_image re_search]
      missing_file_fails [of fs_without_csproj re_search] e i c
    by simp
qed

subsection \<open>The reference file\<close>

text \<open>
  Claim C5 says that the auditor applies its regexes to each of the two input files, the
  target and the reference, to check that the expected API usages are present.  That
  fails: in the sample file system no regex of the lists matches in the reference file,
  and the structure check, the authentication check and the whole auditor pass.
\<close>

theorem reference_without_patterns_passes:
  "read_file sample_fs working_test = Some sample_working_content \<and>
   \<not> some_regex_matches re_search sample_working_content \<and>
   validate_test_structure re_search sample_fs \<and>
   validate_authentication_pattern re_search sample_fs \<and>
   main_auditor re_search sample_fs = 0"
  using sample_reference_matches_nothing sample_sections
  by (simp add: sample_read main_auditor_sections)

text \<open>
  Claim C5, amended: the auditor applies its regexes to the target test file only.  The
  structure check and the authentication check pass exactly when the target file reads as
  non-empty text in which every pattern of their list matches, and the reference file
  reads as non-empty text; nothing else is asked of the reference file.
\<close>

theorem regexes_applied_to_target_only:
  "(validate_test_structure search fs \<longleftrightarrow>
      (\<exists>c. read_file fs test_file = Some c \<and> c \<noteq> [] \<and>
           list_all (\<lambda>(pattern, description). search pattern c) patterns_to_check) \<and>
      reads_nonempty fs working_test) \<and>
   (validate_authentication_pattern search fs \<longleftrightarrow>
      (\<exists>c. read_file fs test_file = Some c \<and> c \<noteq> [] \<and>
           list_all (\<lambda>pattern. search pattern c) auth_patterns) \<and>
      reads_nonempty fs working_test)"
  by (auto simp: validate_test_structure_iff validate_authentication_pattern_iff
      reads_nonempty_def split: option.splits)

text \<open>
  Claim C8: in \<^verbatim>\<open>validate_test_structure\<close> the contents of the reference file do not
  influence the result.  Whatever else the file system holds, any two reference files that
  read as non-empty text give the same result.
\<close>

theorem reference_content_irrelevant:
  assumes "ftext r1 = Some c1" and "c1 \<noteq> []" and "ftext r2 = Some c2" and "c2 \<noteq> []"
  shows "validate_test_structure search (fs(working_test \<mapsto> r1)) =
         validate_test_structure search (fs(working_test \<mapsto> r2))"
proof -
  have neq: "test_file \<noteq> working_test" using paths_distinct by auto
  have t: "read_file (fs(working_test \<mapsto> r)) test_file = read_file fs test_file" for r
    using neq by (simp add: read_file_def)
  have w: "read_file (fs(working_test \<mapsto> r)) working_test = ftext r" for r
    by (simp add: read_file_def)
  show ?thesis using assms by (simp add: validate_test_structure_iff t w)
qed

text \<open>
  Claim C8 at the sample file system, for the sample reference file and for a reference
  file with the contents of the sample test file.
\<close>

theorem reference_content_irrelevant_witness:
  "ftext (text_file sample_working_content) = Some sample_working_content \<and>
   sample_working_content \<noteq> [] \<and>
   ftext (text_file sample_test_content) = Some sample_test_content \<and>
   sample_test_content \<noteq> [] \<and>
   sample_working_content \<noteq> sample_test_content \<and>
   validate_test_structure re_search (sample_fs(working_test \<mapsto> text_file sample_working_content)) =
   validate_test_structure re_search (sample_fs(working_test \<mapsto> text_file sample_test_content))"
proof -
  have a: "ftext (text_file sample_working_content) = Some sample_working_content"
    "ftext (text_file sample_test_content) = Some sample_test_content"
    by (simp_all add: text_file_def)
  have b: "sample_working_content \<noteq> []" by (simp add: sample_working_content_def)
  have c: "sample_working_content \<noteq> sample_test_content"
    by (simp add: sample_working_content_def sample_test_content_def unlines_def sample_lines_def)
  show ?thesis
    using reference_content_irrelevant [OF a(1) b a(2) sample_test_content_nonempty,
        of re_search sample_fs] a b c sample_test_content_nonempty
    by simp
qed

section \<open>Properties of the image generator and validator\<close>

lemma create_test_image_cases:
  "create_test_image env p fs =
     (case load_default env of
        Inl e \<Rightarrow> Inl e
      | Inr f \<Rightarrow>
          (case write_error env p of
             Some e \<Rightarrow> Inl e
           | None \<Rightarrow> Inr (expected_image f, fs(p \<mapsto> encode env (expected_image f)))))"
  by (simp add: create_test_image_def draw_text_def save_def image_new_def draw_def
      expected_image_def Let_def split: option.splits sum.splits)

lemma sample_env_png: "write_error sample_env image_path = None"
  by (simp add: sample_env_def ends_with_def image_path_def tests_dir_def)

text \<open>
  Claim C2 says that \<^verbatim>\<open>analyze_test_image\<close> returns \<^verbatim>\<open>True\<close> if and only if the file
  exists, its size is greater than 100 bytes, the image opens without raising, and its
  dimensions are (400, 300).  That fails twice.  A file of exactly 100 bytes that opens with
  these dimensions is accepted: the source rejects \<^verbatim>\<open>file_size < 100\<close>.  And a file of
  2000 bytes that opens with these dimensions is rejected when \<^verbatim>\<open>img.getcolors\<close> raises
  on loading its pixel data.
\<close>

theorem small_image_accepted_truncated_rejected:
  "exists hundred_byte_fs image_path \<and> getsize hundred_byte_fs image_path = Inr 100 \<and>
   analyze_test_image hundred_byte_fs image_path \<and>
   exists truncated_fs image_path \<and> getsize truncated_fs image_path = Inr 2000 \<and>
   map_sum id isize (image_open truncated_fs image_path) = Inr (400, 300) \<and>
   \<not> analyze_test_image truncated_fs image_path"
  by (simp add: analyze_test_image_def exists_def getsize_def image_open_def hundred_byte_fs_def
      truncated_fs_def image_file_def blank_image_def truncated_image_def)

text \<open>
  Claim C2, amended: \<^verbatim>\<open>analyze_test_image\<close> returns \<^verbatim>\<open>True\<close> if and only if the file
  exists, the image opens and its pixel data loads (\<^verbatim>\<open>img.getcolors\<close>) without raising,
  the file size is at least 100 bytes, and the dimensions are exactly (400, 300); in every
  other case it returns \<^verbatim>\<open>False\<close>.
\<close>

theorem analyze_test_image_iff:
  "analyze_test_image fs p \<longleftrightarrow>
     (\<exists>f img colors. fs p = Some f \<and> fimage f = Inr img \<and> icolors img = Inr colors \<and>
        100 \<le> fsize f \<and> isize img = (400, 300))"
  by (auto simp: analyze_test_image_def exists_def getsize_def image_open_def
      split: option.splits sum.splits)

text \<open>
  Claim C10: if a file exists at the test-image path, \<^verbatim>\<open>main\<close> does not call
  \<^verbatim>\<open>create_test_image\<close> and leaves the file as it is, and the analysis is that of the
  file found there.  The script ends with the file system it started with, by exit code 0
  or 1 as the set-up check and the analysis of that file system decide, and nothing of the
  environment that \<^verbatim>\<open>create_test_image\<close> would use has any influence.
\<close>

theorem existing_image_untouched:
  assumes "exists fs image_path"
  shows "main_image env fs =
           Exit (if validate_test_setup fs \<and> analyze_test_image fs image_path then 0 else 1) fs \<and>
         main_image env fs = main_image env' fs"
  using assms by (simp add: main_image_def)

text \<open>
  Claim C10 at the sample file system, whose test image passes the analysis, and at one
  whose file at the test-image path is no image: it stays, and the script exits with 1.
\<close>

theorem existing_image_untouched_witness:
  "exists sample_fs image_path \<and>
   main_image sample_env sample_fs = Exit 0 sample_fs \<and>
   main_image sample_env sample_fs = main_image fontless_env sample_fs \<and>
   exists junk_fs image_path \<and>
   main_image sample_env junk_fs = Exit 1 junk_fs"
proof -
  have a: "exists sample_fs image_path" "exists junk_fs image_path"
    by (simp_all add: exists_def sample_fs_lookup junk_fs_def)
  have b: "validate_test_setup sample_fs" "analyze_test_image sample_fs image_path"
    by (simp_all add: validate_test_setup_def analyze_test_image_def exists_def getsize_def
        image_open_def sample_fs_lookup image_file_def sample_image_def)
  have c: "\<not> analyze_test_image junk_fs image_path"
    by (simp add: analyze_test_image_def exists_def image_open_def junk_fs_def text_file_def)
  show ?thesis
    using existing_image_untouched [OF a(1), of sample_env fontless_env]
      existing_image_untouched [OF a(2), of sample_env fontless_env] a b c
    by auto
qed

text \<open>
  Claim C6 says that \<^verbatim>\<open>create_test_image\<close> always produces the picture and persists it
  to the given output path.  That fails where a call into PIL raises, for nothing in
  \<^verbatim>\<open>create_test_image\<close> catches it: for an output path whose extension names no image
  format \<^verbatim>\<open>img.save\<close> raises, and where no default font can be loaded \<^verbatim>\<open>draw.text\<close>
  raises.  Either way no image is returned.
\<close>

theorem create_test_image_raises:
  "create_test_image sample_env ''/tmp/test-image.xyz'' Map.empty =
     Inl (Error ''ValueError: unknown file extension'') \<and>
   create_test_image fontless_env image_path Map.empty =
     Inl (Error ''OSError: cannot open resource'')"
  by (simp add: create_test_image_cases sample_env_def fontless_env_def ends_with_def)

text \<open>
  Claim C6, amended: whenever \<^verbatim>\<open>ImageFont.load_default\<close> and \<^verbatim>\<open>img.save\<close> do not
  raise, \<^verbatim>\<open>create_test_image\<close> returns an RGB image of exactly 400 by 300 pixels on a
  white background with three shapes, a blue rectangle, a red ellipse and a green triangle,
  each with a black outline, and two lines of black text, and the file at the output path
  is the encoding of that image.
\<close>

theorem create_test_image_result:
  assumes "load_default env = Inr f" and "write_error env p = None"
  shows "\<exists>img fs'. create_test_image env p fs = Inr (img, fs') \<and>
           fs' = fs(p \<mapsto> encode env img) \<and>
           cmode img = ''RGB'' \<and> csize img = (400, 300) \<and> ccolor img = ''white'' \<and>
           List.map_filter shape_of (drawn img) =
             [(''rectangle'', ''blue'', ''black''), (''ellipse'', ''red'', ''black''),
              (''triangle'', ''green'', ''black'')] \<and>
           map snd (List.map_filter text_of (drawn img)) = [''black'', ''black'']"
  using assms by (simp add: create_test_image_cases expected_image_def)

text \<open>
  Claim C6, amended, for the test-image path in an empty file system, in the sample
  environment; the file written there passes \<^verbatim>\<open>analyze_test_image\<close>.
\<close>

theorem create_test_image_result_witness:
  "load_default sample_env = Inr (Font ''default'') \<and>
   write_error sample_env image_path = None \<and>
   (\<exists>img fs'. create_test_image sample_env image_path Map.empty = Inr (img, fs') \<and>
      fs' = [image_path \<mapsto> encode sample_env img] \<and>
      cmode img = ''RGB'' \<and> csize img = (400, 300) \<and> ccolor img = ''white'' \<and>
      List.map_filter shape_of (drawn img) =
        [(''rectangle'', ''blue'', ''black''), (''ellipse'', ''red'', ''black''),
         (''triangle'', ''green'', ''black'')] \<and>
      map snd (List.map_filter text_of (drawn img)) = [''black'', ''black'']) \<and>
   analyze_test_image generated_fs image_path"
proof -
  have f: "load_default sample_env = Inr (Font ''default'')" by (simp add: sample_env_def)
  have "analyze_test_image generated_fs image_path"
    by (simp add: generated_fs_def analyze_test_image_def exists_def image_open_def getsize_def
        sample_env_def image_file_def expected_image_def)
  then show ?thesis
    using create_test_image_result [OF f sample_env_png, of Map.empty] f sample_env_png by simp
qed

text \<open>
  Claim C7: any two invocations of \<^verbatim>\<open>create_test_image\<close> produce images of the same
  dimensions (400, 300), with the same shapes and colours at the same positions, whatever
  the environment, the output path and the file system; the persisted files need not be
  the same.  The mode, the background, the shapes with their coordinates, colours and
  outline width, and the texts with their positions and colour agree; and where the two
  environments load the same default font, the two images are equal.
\<close>

theorem regeneration_same_picture:
  assumes "create_test_image env1 p1 fs1 = Inr (img1, fs1')"
      and "create_test_image env2 p2 fs2 = Inr (img2, fs2')"
  shows "csize img1 = (400, 300) \<and> csize img2 = (400, 300) \<and>
         cmode img1 = cmode img2 \<and> ccolor img1 = ccolor img2 \<and>
         filter is_shape (drawn img1) = filter is_shape (drawn img2) \<and>
         List.map_filter text_at (drawn img1) = List.map_filter text_at (drawn img2) \<and>
         (load_default env1 = load_default env2 \<longrightarrow> img1 = img2)"
  using assms
  by (auto simp: create_test_image_cases expected_image_def split: option.splits sum.splits)

text \<open>
  Claim C7 for the test image generated in an empty file system and then generated again
  over the file just written, in the sample environment: the second image is the first,
  and so is the file system.
\<close>

theorem regeneration_same_picture_witness:
  "create_test_image sample_env image_path Map.empty =
     Inr (expected_image (Font ''default''), generated_fs) \<and>
   create_test_image sample_env image_path generated_fs =
     Inr (expected_image (Font ''default''), generated_fs) \<and>
   load_default sample_env = load_default sample_env \<and>
   csize (expected_image (Font ''default'')) = (400, 300) \<and>
   filter is_shape (drawn (expected_image (Font ''default''))) =
     [Rectangle [50, 50, 150, 100] ''blue'' ''black'' 2,
      Ellipse [200, 50, 300, 150] ''red'' ''black'' 2,
      Polygon [(100, 200), (150, 250), (50, 250)] ''green'' ''black'' 2] \<and>
   List.map_filter text_at (drawn (expected_image (Font ''default''))) =
     [((50, 10), ''Test Image'', ''black''),
      ((50, 270), ''Shapes: Rectangle, Circle, Triangle'', ''black'')]"
proof -
  have f: "load_default sample_env = Inr (Font ''default'')" by (simp add: sample_env_def)
  have a: "create_test_image sample_env image_path Map.empty =
     Inr (expected_image (Font ''default''), generated_fs)"
    using sample_env_png f by (simp add: create_test_image_cases generated_fs_def)
  have b: "create_test_image sample_env image_path generated_fs =
     Inr (expected_image (Font ''default''), generated_fs)"
    using sample_env_png f by (simp add: create_test_image_cases generated_fs_def)
  show ?thesis
    using regeneration_same_picture [OF a b] a b
    by (simp add: expected_image_def)
qed

section \<open>Properties of the authentication probe\<close>

text \<open>
  Claim C4 says that if the login call returns a status other than 200, or returns 200 with
  a response JSON that has no non-empty token, \<^verbatim>\<open>test_auth\<close> returns early after printing
  a failure message and the request for \<^verbatim>\<open>/repositories\<close> is never issued.  The first
  half fails for a reply with status 200 whose JSON is not an object: the JSON array
  \<^verbatim>\<open>[]\<close> has no token, \<^verbatim>\<open>login_result.get\<close> raises on it, and the function ends by that
  exception, having printed no failure message.
\<close>

theorem array_reply_raises:
  "http_array login_request = Replies (reply 200 ''[]'' (Inr (JArr []))) \<and>
   \<not> has_token (reply 200 ''[]'' (Inr (JArr []))) \<and>
   ended (test_auth http_array no_format) =
     Raised (Error ''AttributeError: object has no attribute get'') \<and>
   printed (test_auth http_array no_format) =
     [''1. Testing login...'', ''Login Status: 200'', ''Login Response: []'']"
proof -
  have d: "digits 200 = ''200''" by code_simp
  show ?thesis
    by (simp add: test_auth_def Let_def http_array_def reply_def has_token_def str_int_def d)
qed

text \<open>
  Claim C4, amended: if the login call returns a status other than 200, or returns 200 with
  a reply that holds no non-empty token, the request for \<^verbatim>\<open>/repositories\<close> is never
  issued; and if the status is not 200, or it is 200 and the body is a JSON object without
  a non-empty token, \<^verbatim>\<open>test_auth\<close> returns early, the failure message being the last line
  it printed.
\<close>

theorem login_failure_returns_early:
  assumes "http login_request = Replies r"
      and "status_code r \<noteq> 200 \<or> \<not> has_token r"
  shows "issued (test_auth http py_str) = [login_request] \<and>
         (status_code r \<noteq> 200 \<or> is_object (json_body r) \<longrightarrow>
            ended (test_auth http py_str) = Returned \<and>
            last (printed (test_auth http py_str)) \<in> {''LOGIN FAILED!'', ''NO TOKEN RECEIVED!''})"
proof (cases "status_code r = 200")
  case False
  with assms(1) show ?thesis by (simp add: test_auth_def Let_def)
next
  case True
  with assms(2) have nt: "\<not> has_token r" by simp
  show ?thesis
  proof (cases "json_body r")
    case (Inl e)
    with assms(1) True show ?thesis by (simp add: test_auth_def Let_def is_object_def)
  next
    case (Inr j)
    show ?thesis
    proof (cases j)
      case (JObj kvs)
      with nt Inr have "\<not> truthy (case map_of kvs ''token'' of None \<Rightarrow> JNull | Some v \<Rightarrow> v)"
        by (auto simp: has_token_def split: option.splits)
      with assms(1) True Inr JObj show ?thesis by (simp add: test_auth_def Let_def)
    qed (use assms(1) True Inr in \<open>simp_all add: test_auth_def Let_def is_object_def\<close>)
  qed
qed

text \<open>
  Claim C4 at a server that refuses the login with status 401 and at one that answers 200
  with an empty JSON object.
\<close>

theorem login_failure_returns_early_witness:
  "http_unauthorized login_request =
     Replies (reply 401 ''Unauthorized'' (Inl (Error ''JSONDecodeError''))) \<and>
   status_code (reply 401 ''Unauthorized'' (Inl (Error ''JSONDecodeError''))) \<noteq> 200 \<and>
   test_auth http_unauthorized no_format =
     \<lparr>printed = [''1. Testing login...'', ''Login Status: 401'', ''Login Response: Unauthorized'',
                 ''LOGIN FAILED!''],
      issued = [login_request], ended = Returned\<rparr> \<and>
   http_no_token login_request = Replies (reply 200 ''{}'' (Inr (JObj []))) \<and>
   \<not> has_token (reply 200 ''{}'' (Inr (JObj []))) \<and>
   is_object (json_body (reply 200 ''{}'' (Inr (JObj [])))) \<and>
   test_auth http_no_token no_format =
     \<lparr>printed = [''1. Testing login...'', ''Login Status: 200'', ''Login Response: {}'',
                 ''NO TOKEN RECEIVED!''],
      issued = [login_request], ended = Returned\<rparr>"
proof -
  let ?r1 = "reply 401 ''Unauthorized'' (Inl (Error ''JSONDecodeError''))"
  let ?r2 = "reply 200 ''{}'' (Inr (JObj []))"
  have h1: "http_unauthorized login_request = Replies ?r1" by (simp add: http_unauthorized_def)
  have c1: "status_code ?r1 \<noteq> 200 \<or> \<not> has_token ?r1" by (simp add: reply_def)
  have h2: "http_no_token login_request = Replies ?r2" by (simp add: http_no_token_def)
  have c2: "status_code ?r2 \<noteq> 200 \<or> \<not> has_token ?r2" by (simp add: reply_def has_token_def)
  have d: "digits 401 = ''401''" "digits 200 = ''200''" by code_simp+
  show ?thesis
    using login_failure_returns_early [where http = http_unauthorized and r = ?r1
        and py_str = no_format, OF h1 c1]
      login_failure_returns_early [where http = http_no_token and r = ?r2
        and py_str = no_format, OF h2 c2]
    by (simp add: test_auth_def Let_def http_unauthorized_def http_no_token_def reply_def
        has_token_def is_object_def str_int_def d)
qed

lemma test_auth_issued_nonempty: "issued (test_auth http py_str) \<noteq> []"
  by (simp add: test_auth_def Let_def split: answer.splits sum.splits)

lemma test_auth_ended:
  "ended (test_auth http py_str) = Blocked \<longleftrightarrow>
     http (last (issued (test_auth http py_str))) = Silent"
  "ended (test_auth http py_str) = Interrupted \<longleftrightarrow>
     http (last (issued (test_auth http py_str))) = Interrupt"
  by (auto simp: test_auth_def Let_def login_request_def split: answer.splits sum.splits)

lemma test_auth_returns:
  "list_all (returns http) (issued (test_auth http py_str)) \<Longrightarrow>
     ended (test_auth http py_str) = Returned \<or> (\<exists>e. ended (test_auth http py_str) = Raised e)"
  by (auto simp: test_auth_def Let_def returns_def split: answer.splits sum.splits if_splits)

text \<open>
  Claim C9 says that the script never lets an exception out and always ends with exit code
  0, whatever happens.  That fails twice.  The source passes no timeout to \<^verbatim>\<open>requests\<close>:
  at a server that never answers the login call never returns and the script does not end.
  And \<^verbatim>\<open>except Exception\<close> does not catch a \<^verbatim>\<open>KeyboardInterrupt\<close>: when the user
  interrupts the wait for the login reply, that exception leaves the script.
\<close>

theorem silent_server_blocks_interrupt_propagates:
  "script_ended (auth_script http_silent no_format) = Never_ends \<and>
   script_issued (auth_script http_silent no_format) = [login_request] \<and>
   script_ended (auth_script http_interrupted no_format) = Propagated \<and>
   script_printed (auth_script http_interrupted no_format) = [''1. Testing login...'']"
  by (simp add: auth_script_def test_auth_def http_silent_def http_interrupted_def)

text \<open>
  Claim C9, amended: if every request the script issues returns, with a reply or with an
  exception derived from \<^verbatim>\<open>Exception\<close>, the script ends with exit code 0 and lets no
  exception out, whether the login fails, the token is missing, the authenticated request
  fails or an exception is raised; an exception that \<^verbatim>\<open>test_auth\<close> raises is caught and
  only printed.  If the last request it issues never returns, the script does not end; if
  that request is interrupted, the \<^verbatim>\<open>KeyboardInterrupt\<close> leaves the script.
\<close>

theorem auth_script_end:
  "(list_all (returns http) (script_issued (auth_script http py_str)) \<longrightarrow>
      script_ended (auth_script http py_str) = Exited 0 \<and>
      (\<forall>e. ended (test_auth http py_str) = Raised e \<longrightarrow>
           script_printed (auth_script http py_str) =
             printed (test_auth http py_str) @ [''Error: '' @ exn_str e])) \<and>
   (http (last (script_issued (auth_script http py_str))) = Silent \<longrightarrow>
      script_ended (auth_script http py_str) = Never_ends) \<and>
   (http (last (script_issued (auth_script http py_str))) = Interrupt \<longrightarrow>
      script_ended (auth_script http py_str) = Propagated)"
proof -
  have i: "script_issued (auth_script http py_str) = issued (test_auth http py_str)"
    by (simp add: auth_script_def Let_def split: ending.splits)
  show ?thesis
    unfolding i
    using test_auth_returns [of http py_str] test_auth_ended [of http py_str]
    by (auto simp: auth_script_def Let_def split: ending.splits)
qed

text \<open>
  Claim C9, amended, at a server that cannot be reached and at one that works, where the
  script exits with 0, and at servers that hand out a token and then never answer the
  request for the repositories, or have it interrupted.
\<close>

theorem auth_script_end_witness:
  "list_all (returns http_down) (script_issued (auth_script http_down no_format)) \<and>
   ended (test_auth http_down no_format) = Raised (Error ''ConnectionError: connection refused'') \<and>
   script_ended (auth_script http_down no_format) = Exited 0 \<and>
   script_printed (auth_script http_down no_format) =
     [''1. Testing login...'', ''Error: ConnectionError: connection refused''] \<and>
   list_all (returns http_ok) (script_issued (auth_script http_ok no_format)) \<and>
   script_ended (auth_script http_ok no_format) = Exited 0 \<and>
   http_after_login Silent (last (script_issued (auth_script (http_after_login Silent) no_format))) =
     Silent \<and>
   script_ended (auth_script (http_after_login Silent) no_format) = Never_ends \<and>
   http_after_login Interrupt
     (last (script_issued (auth_script (http_after_login Interrupt) no_format))) = Interrupt \<and>
   script_ended (auth_script (http_after_login Interrupt) no_format) = Propagated"
proof -
  have e: "ended (test_auth http_down no_format) =
      Raised (Error ''ConnectionError: connection refused'')"
    by (simp add: test_auth_def http_down_def)
  have d: "list_all (returns http_down) (script_issued (auth_script http_down no_format))"
    by (simp add: auth_script_def test_auth_def http_down_def returns_def)
  have k: "list_all (returns http_ok) (script_issued (auth_script http_ok no_format))"
    by (simp add: auth_script_def test_auth_def Let_def http_ok_def returns_def reply_def
        login_request_def format_value_def)
  have s: "http_after_login Silent
      (last (script_issued (auth_script (http_after_login Silent) no_format))) = Silent"
    by (simp add: auth_script_def test_auth_def Let_def http_after_login_def reply_def
        login_request_def)
  have c: "http_after_login Interrupt
      (last (script_issued (auth_script (http_after_login Interrupt) no_format))) = Interrupt"
    by (simp add: auth_script_def test_auth_def Let_def http_after_login_def reply_def
        login_request_def)
  show ?thesis
    using auth_script_end [of http_down no_format] auth_script_end [of http_ok no_format]
      auth_script_end [of "http_after_login Silent" no_format]
      auth_script_end [of "http_after_login Interrupt" no_format] e d k s c
    by (simp add: test_auth_def http_down_def exn_str_def)
qed

end
